theory Spec2Isabelle
  imports Complex_Main "HOL-Library.Word"
begin

section \<open>JavaScript values\<close>

text \<open>
  The repository is a Next.js application of two files: the route handler
  \<^verbatim>\<open>src/app/api/tryon/route.ts\<close> (the proxy endpoint) and the page component
  \<^verbatim>\<open>src/app/page.tsx\<close> (the client form controller). Text values are modelled as
  \<^typ>\<open>string\<close>; a value that may be \<^verbatim>\<open>null\<close> or \<^verbatim>\<open>undefined\<close> is an
  \<^typ>\<open>'a option\<close>. Console output is not modelled.
\<close>

type_synonym byte = "8 word"

type_synonym code_unit = "16 word"

text \<open>
  A thrown value: an object for which \<^verbatim>\<open>instanceof Error\<close> holds, with its message,
  or any other value, with the text \<^verbatim>\<open>String(value)\<close> gives for it.
\<close>

datatype thrown = ErrorObject string | OtherValue string

text \<open>\<^verbatim>\<open>error instanceof Error ? error.message : String(error)\<close>\<close>

fun error_details :: "thrown \<Rightarrow> string" where
  "error_details (ErrorObject message) = message"
| "error_details (OtherValue rendering) = rendering"

text \<open>
  Truthiness of a value that is a string when present: \<^verbatim>\<open>undefined\<close>, \<^verbatim>\<open>null\<close> and
  the empty string are falsy.
\<close>

fun truthy :: "string option \<Rightarrow> bool" where
  "truthy None = False"
| "truthy (Some s) = (s \<noteq> [])"

text \<open>\<^verbatim>\<open>value || fallback\<close> for such a value, and for a plain string.\<close>

fun or_fallback :: "string option \<Rightarrow> string \<Rightarrow> string" where
  "or_fallback None fallback = fallback"
| "or_fallback (Some s) fallback = (if s = [] then fallback else s)"

definition or_default :: "string \<Rightarrow> string \<Rightarrow> string" where
  "or_default s fallback = (if s = [] then fallback else s)"

text \<open>
  A \<^verbatim>\<open>File\<close>: its name, its declared MIME type (\<^verbatim>\<open>file.type\<close>, the empty string
  when unknown) and its bytes. \<^verbatim>\<open>file.size\<close> is the number of bytes, and
  \<^verbatim>\<open>file.arrayBuffer()\<close> yields them.
\<close>

record File =
  file_name :: string
  file_type :: string
  file_bytes :: "byte list"

definition file_size :: "File \<Rightarrow> nat" where
  "file_size f = length (file_bytes f)"

definition arrayBuffer :: "File \<Rightarrow> byte list" where
  "arrayBuffer f = file_bytes f"

text \<open>
  \<^verbatim>\<open>FormData\<close>: an ordered list of entries, each a file or a string;
  \<^verbatim>\<open>get(name)\<close> is the first value under that name, or \<^verbatim>\<open>null\<close>.
\<close>

datatype form_value = FileValue File | StringValue string

type_synonym form_data = "(string \<times> form_value) list"

definition form_get :: "form_data \<Rightarrow> string \<Rightarrow> form_value option" where
  "form_get fd name = map_of fd name"

text \<open>Truthiness of what \<^verbatim>\<open>get\<close> returns: a \<^verbatim>\<open>File\<close> object is always truthy.\<close>

fun form_truthy :: "form_value option \<Rightarrow> bool" where
  "form_truthy None = False"
| "form_truthy (Some (FileValue f)) = True"
| "form_truthy (Some (StringValue s)) = (s \<noteq> [])"

section \<open>Base64\<close>

text \<open>
  The base64 encoding of RFC 4648, section 4: each group of three bytes (24 bits) is cut
  into four 6-bit values, each written as one character of the alphabet; a final group of
  one or two bytes is filled with zero bits and padded with \<^verbatim>\<open>=\<close>.
\<close>

definition base64_alphabet :: string where
  "base64_alphabet = ''ABCDEFGHIJKLMNOPQRSTUVWXYZabcdefghijklmnopqrstuvwxyz0123456789+/''"

definition enc6 :: "nat \<Rightarrow> char" where
  "enc6 n = (if n < 26 then char_of (n + 65)
             else if n < 52 then char_of (n + 71)
             else if n < 62 then char_of (n - 4)
             else if n = 62 then CHR ''+'' else CHR ''/'')"

definition dec6 :: "char \<Rightarrow> nat option" where
  "dec6 c = (let n = (of_char c :: nat) in
     if 65 \<le> n \<and> n \<le> 90 then Some (n - 65)
     else if 97 \<le> n \<and> n \<le> 122 then Some (n - 71)
     else if 48 \<le> n \<and> n \<le> 57 then Some (n + 4)
     else if n = 43 then Some 62
     else if n = 47 then Some 63
     else None)"

fun base64_encode :: "byte list \<Rightarrow> string" where
  "base64_encode [] = []"
| "base64_encode [a] =
     [enc6 (unat a div 4), enc6 (unat a mod 4 * 16), CHR ''='', CHR ''='']"
| "base64_encode [a, b] =
     [enc6 (unat a div 4), enc6 (unat a mod 4 * 16 + unat b div 16),
      enc6 (unat b mod 16 * 4), CHR ''='']"
| "base64_encode (a # b # c # rest) =
     [enc6 (unat a div 4), enc6 (unat a mod 4 * 16 + unat b div 16),
      enc6 (unat b mod 16 * 4 + unat c div 64), enc6 (unat c mod 64)]
     @ base64_encode rest"

text \<open>
  The decoder of the same section, strict: the length is a multiple of four, padding occurs
  in the last group only, and the bits that padding fills are zero.
\<close>

fun base64_decode :: "string \<Rightarrow> byte list option" where
  "base64_decode [] = Some []"
| "base64_decode (c1 # c2 # c3 # c4 # rest) =
     (if rest = [] \<and> c4 = CHR ''='' then
        (if c3 = CHR ''='' then
           (case (dec6 c1, dec6 c2) of
              (Some s1, Some s2) \<Rightarrow>
                if s2 mod 16 = 0 then Some [of_nat (s1 * 4 + s2 div 16)] else None
            | _ \<Rightarrow> None)
         else
           (case (dec6 c1, dec6 c2, dec6 c3) of
              (Some s1, Some s2, Some s3) \<Rightarrow>
                if s3 mod 4 = 0
                then Some [of_nat (s1 * 4 + s2 div 16), of_nat (s2 mod 16 * 16 + s3 div 4)]
                else None
            | _ \<Rightarrow> None))
      else
        (case (dec6 c1, dec6 c2, dec6 c3, dec6 c4) of
           (Some s1, Some s2, Some s3, Some s4) \<Rightarrow>
             (case base64_decode rest of
                Some bs \<Rightarrow>
                  Some (of_nat (s1 * 4 + s2 div 16) # of_nat (s2 mod 16 * 16 + s3 div 4)
                        # of_nat (s3 mod 4 * 64 + s4) # bs)
              | None \<Rightarrow> None)
         | _ \<Rightarrow> None))"
| "base64_decode _ = None"

text \<open>
  \<^verbatim>\<open>btoa\<close> is a function of the JavaScript platform, not of the repository. By the
  HTML standard it throws an \<^verbatim>\<open>InvalidCharacterError\<close> when its argument has a code
  unit above \<^verbatim>\<open>0xFF\<close>, and otherwise returns the base64 encoding of the bytes that the
  code units stand for.
\<close>

definition btoa :: "code_unit list \<Rightarrow> thrown + string" where
  "btoa binary =
     (if list_ex (\<lambda>u. 255 < u) binary then Inl (ErrorObject ''Invalid character'')
      else Inr (base64_encode (map ucast binary)))"

text \<open>\<^verbatim>\<open>String.fromCharCode(bytes[i])\<close>: the one code unit with the value of the byte.\<close>

definition fromCharCode :: "byte \<Rightarrow> code_unit" where
  "fromCharCode b = ucast b"

section \<open>The proxy endpoint: \<^verbatim>\<open>route.ts\<close>\<close>

text \<open>
  \<^verbatim>\<open>
  function arrayBufferToBase64(buffer: ArrayBuffer): string {
    let binary = "";
    const bytes = new Uint8Array(buffer);
    const len = bytes.byteLength;
    for (let i = 0; i < len; i++) {
      binary += String.fromCharCode(bytes[i]);
    }
    return btoa(binary);
  }
  \<close>
\<close>

function binary_loop :: "byte list \<Rightarrow> nat \<Rightarrow> code_unit list \<Rightarrow> code_unit list" where
  "binary_loop bytes i binary =
     (if i < length bytes
      then binary_loop bytes (Suc i) (binary @ [fromCharCode (bytes ! i)])
      else binary)"
  by pat_completeness auto
termination
  by (relation "measure (\<lambda>(bytes, i, binary). length bytes - i)") auto

declare binary_loop.simps [simp del]

definition arrayBufferToBase64 :: "byte list \<Rightarrow> thrown + string" where
  "arrayBufferToBase64 buffer = btoa (binary_loop buffer 0 [])"

definition MODEL_ID :: string where
  "MODEL_ID = ''gemini-2.0-flash-exp-image-generation''"

text \<open>
  The types of the generation API that the handler uses. A \<^verbatim>\<open>Part\<close> carries inline
  data, text, or neither; every field is optional.
\<close>

record blob =
  data :: "string option"
  mimeType :: "string option"

record part =
  inlineData :: "blob option"
  text' :: "string option"

record content =
  role :: "string option"
  parts :: "part list option"

record candidate =
  candidate_content :: "content option"

record prompt_feedback =
  blockReason :: "string option"

record generate_content_response =
  candidates :: "candidate list option"
  promptFeedback :: "prompt_feedback option"

record generation_config =
  temperature :: rat
  topP :: rat
  topK :: nat
  responseModalities :: "string list"

record generate_content_parameters =
  model :: string
  contents :: "content list"
  config :: generation_config

text \<open>
  \<^verbatim>\<open>await ai.models.generateContent(...)\<close> resolves with a response or rejects with a
  thrown value. The client \<^verbatim>\<open>ai\<close> is a parameter of the handler's model: a function
  from the request to this outcome.
\<close>

datatype api_outcome = Resolves generate_content_response | Rejects thrown

type_synonym genai = "generate_content_parameters \<Rightarrow> api_outcome"

text \<open>
  The request body: \<^verbatim>\<open>await req.formData()\<close> rejects (the body does not parse) or
  yields the form.
\<close>

record next_request =
  formData :: "thrown + form_data"

text \<open>
  The JSON bodies the handler sends: \<^verbatim>\<open>{ error, details? }\<close> and
  \<^verbatim>\<open>{ image, description }\<close>. \<^verbatim>\<open>NextResponse.json(body)\<close> has status 200 unless
  a status is given.
\<close>

datatype json_body =
    ErrorJson string "string option"
  | ResultJson "string option" string

record next_response =
  status :: nat
  body :: json_body

text \<open>
  The instruction block of the handler, a template literal of 41 lines. Characters outside
  printable ASCII, and the apostrophe, are written as their UTF-8 bytes.
\<close>

definition improvedPrompt :: string where
  "improvedPrompt = concat
    [''VIRTUAL TRY-ON TASK:\<newline>'',
     ''\<newline>'',
     ''INPUT IMAGES:\<newline>'',
     ''1. PERSON IMAGE: Contains the target person whose identity must be PERFECTLY preserved\<newline>'',
     ''2. CLOTHING IMAGE: Contains the clothing item to be virtually worn\<newline>'',
     ''\<newline>'',
     ''CRITICAL REQUIREMENTS (NON-NEGOTIABLE):\<newline>'',
     ''\<newline>'',
     [CHR 0xF0, CHR 0x9F, CHR 0x94, CHR 0x92] @ '' FACE IDENTITY LOCK (ABSOLUTE PRIORITY):\<newline>'',
     ''- The person'' @ [CHR 0x27] @ ''s face, facial features, skin tone, and expression MUST remain 100% identical to the input person image\<newline>'',
     ''- DO NOT change, modify, or reinterpret ANY facial characteristics\<newline>'',
     ''- DO NOT blend or mix features from the clothing image model\<newline>'',
     ''- Preserve the exact eye color, nose shape, lip shape, jawline, and all unique facial features\<newline>'',
     ''- If the person has distinctive features (freckles, moles, scars), keep them exactly as they are\<newline>'',
     ''\<newline>'',
     [CHR 0xF0, CHR 0x9F, CHR 0x91, CHR 0xA4] @ '' BODY & POSE PRESERVATION:\<newline>'',
     ''- Keep the exact same body pose and positioning as the input person image\<newline>'',
     ''- Maintain the same body proportions and build\<newline>'',
     ''- Preserve hair style and color exactly as shown in the person image\<newline>'',
     ''- Keep any visible accessories (jewelry, watches, etc.) from the person image\<newline>'',
     ''\<newline>'',
     [CHR 0xF0, CHR 0x9F, CHR 0x91, CHR 0x94] @ '' CLOTHING INTEGRATION:\<newline>'',
     ''- Extract ONLY the clothing item from the clothing image (ignore the model wearing it)\<newline>'',
     ''- Apply the exact colors, patterns, textures, and style of the clothing\<newline>'',
     ''- Ensure proper fitting and realistic draping on the person'' @ [CHR 0x27] @ ''s body\<newline>'',
     ''- Handle occlusion naturally where clothing covers the person\<newline>'',
     ''\<newline>'',
     [CHR 0xF0, CHR 0x9F, CHR 0x96, CHR 0xBC] @ [CHR 0xEF, CHR 0xB8, CHR 0x8F] @ '' BACKGROUND HANDLING:\<newline>'',
     ''- Create a clean, neutral background (studio-like or simple environment)\<newline>'',
     ''- Ensure proper lighting that matches both the person and clothing naturally\<newline>'',
     ''- Remove the original backgrounds from both input images\<newline>'',
     ''\<newline>'',
     ''OUTPUT SPECIFICATION:\<newline>'',
     ''Generate a single photorealistic image showing the EXACT same person from the input image wearing the clothing item, with perfect facial identity preservation and realistic clothing integration.\<newline>'',
     ''\<newline>'',
     ''WHAT NOT TO DO:\<newline>'',
     [CHR 0xE2, CHR 0x9D, CHR 0x8C] @ '' Do not alter the person'' @ [CHR 0x27] @ ''s face in any way\<newline>'',
     [CHR 0xE2, CHR 0x9D, CHR 0x8C] @ '' Do not use facial features from the clothing image model\<newline>'',
     [CHR 0xE2, CHR 0x9D, CHR 0x8C] @ '' Do not change the person'' @ [CHR 0x27] @ ''s hair, skin tone, or body structure\<newline>'',
     [CHR 0xE2, CHR 0x9D, CHR 0x8C] @ '' Do not modify the clothing colors or patterns\<newline>'',
     [CHR 0xE2, CHR 0x9D, CHR 0x8C] @ '' Do not create unrealistic proportions or poses'']"

text \<open>
  The request sent to the model (lines 110 to 143 of \<^verbatim>\<open>route.ts\<close>): one user turn with
  a label, the person image, a label, the clothing image and the instruction block, in this
  order, and the fixed generation settings.
\<close>

definition text_part :: "string \<Rightarrow> part" where
  "text_part t = \<lparr>inlineData = None, text' = Some t\<rparr>"

definition inline_part :: "string \<Rightarrow> string \<Rightarrow> part" where
  "inline_part mime b64 =
     \<lparr>inlineData = Some \<lparr>data = Some b64, mimeType = Some mime\<rparr>, text' = None\<rparr>"

definition build_request :: "string \<Rightarrow> string \<Rightarrow> string \<Rightarrow> string \<Rightarrow> generate_content_parameters" where
  "build_request userImageMimeType userImageBase64 clothingImageMimeType clothingImageBase64 =
     \<lparr>model = MODEL_ID,
      contents =
        [\<lparr>role = Some ''user'',
          parts = Some
            [text_part (''PERSON IMAGE (preserve this person'' @ [CHR 0x27]
                        @ ''s identity exactly):''),
             inline_part userImageMimeType userImageBase64,
             text_part ''CLOTHING IMAGE (extract only the clothing item):'',
             inline_part clothingImageMimeType clothingImageBase64,
             text_part improvedPrompt]\<rparr>],
      config = \<lparr>temperature = 1 / 10, topP = 8 / 10, topK = 20,
                responseModalities = [''Text'', ''Image'']\<rparr>\<rparr>"

text \<open>
  The inner \<^verbatim>\<open>try\<close> (lines 108 to 153): the call, and what its \<^verbatim>\<open>catch\<close> rethrows.
  The second component lists the requests issued to the model.
\<close>

definition call_model :: "genai \<Rightarrow> generate_content_parameters \<Rightarrow>
    (thrown + generate_content_response) \<times> generate_content_parameters list" where
  "call_model ai request =
     (case ai request of
        Resolves response \<Rightarrow> (Inr response, [request])
      | Rejects (ErrorObject message) \<Rightarrow>
          (Inl (ErrorObject (''Failed during API call: '' @ message)), [request])
      | Rejects (OtherValue v) \<Rightarrow>
          (Inl (ErrorObject ''An unknown error occurred during the API call''), [request]))"

text \<open>
  The three variables that the loop over the parts assigns (lines 155 to 157), and the loop
  (lines 165 to 176):
  \<^verbatim>\<open>
  for (const part of parts) {
    if ("inlineData" in part && part.inlineData) {
      imageData = part.inlineData.data;
      imageMimeType = part.inlineData.mimeType || "image/png";
    } else if ("text" in part && part.text) {
      textResponse = part.text;
    }
  }
  \<close>
\<close>

record extracted =
  textResponse :: "string option"
  imageData :: "string option"
  imageMimeType :: string

definition initial_extracted :: extracted where
  "initial_extracted = \<lparr>textResponse = None, imageData = None, imageMimeType = ''image/png''\<rparr>"

definition process_part :: "part \<Rightarrow> extracted \<Rightarrow> extracted" where
  "process_part p v =
     (case inlineData p of
        Some b \<Rightarrow> v\<lparr>imageData := data b, imageMimeType := or_fallback (mimeType b) ''image/png''\<rparr>
      | None \<Rightarrow> (if truthy (text' p) then v\<lparr>textResponse := text' p\<rparr> else v))"

fun for_parts :: "part list \<Rightarrow> extracted \<Rightarrow> extracted" where
  "for_parts [] v = v"
| "for_parts (p # ps) v = for_parts ps (process_part p v)"

text \<open>
  \<^verbatim>\<open>response.candidates[0]?.content?.parts\<close>, for a non-empty list of candidates.
\<close>

definition candidate_parts :: "candidate \<Rightarrow> part list option" where
  "candidate_parts c = (case candidate_content c of None \<Rightarrow> None | Some ct \<Rightarrow> parts ct)"

text \<open>\<^verbatim>\<open>response?.promptFeedback?.blockReason\<close>\<close>

definition safetyFeedback :: "generate_content_response \<Rightarrow> string option" where
  "safetyFeedback response =
     (case promptFeedback response of None \<Rightarrow> None | Some fb \<Rightarrow> blockReason fb)"

text \<open>The JSON of the success response (lines 192 to 195).\<close>

definition result_json :: "extracted \<Rightarrow> json_body" where
  "result_json v =
     ResultJson
       (if truthy (imageData v)
        then Some (''data:'' @ imageMimeType v @ '';base64,'' @ the (imageData v))
        else None)
       (or_fallback (textResponse v) ''AI description not available.'')"

text \<open>
  Lines 155 to 195: the response is processed; with no candidate the handler throws, with
  the block reason in the message when there is one.
\<close>

definition process_response :: "generate_content_response \<Rightarrow> thrown + next_response" where
  "process_response response =
     (case candidates response of
        Some (c # cs) \<Rightarrow>
          Inr \<lparr>status = 200,
               body = result_json
                 (case candidate_parts c of
                    Some ps \<Rightarrow> for_parts ps initial_extracted
                  | None \<Rightarrow> initial_extracted)\<rparr>
      | _ \<Rightarrow>
          (if truthy (safetyFeedback response)
           then Inl (ErrorObject (''Content generation failed due to safety settings: ''
                                  @ the (safetyFeedback response)))
           else Inl (ErrorObject ''Received an unexpected or empty response from the API.'')))"

text \<open>
  \<^verbatim>\<open>await file.arrayBuffer()\<close> on what \<^verbatim>\<open>formData.get\<close> returned and the guard of
  line 44 let through: a string has no such method, and the call throws a
  \<^verbatim>\<open>TypeError\<close> (the message is the one of V8).
\<close>

fun uploaded :: "string \<Rightarrow> form_value option \<Rightarrow> thrown + File" where
  "uploaded variable (Some (FileValue f)) = Inr f"
| "uploaded variable (Some (StringValue s)) =
     Inl (ErrorObject (variable @ ''.arrayBuffer is not a function''))"
| "uploaded variable None =
     Inl (ErrorObject (''Cannot read properties of null (reading '' @ [CHR 0x27]
                       @ ''arrayBuffer'' @ [CHR 0x27] @ '')''))"

text \<open>
  The outer \<^verbatim>\<open>try\<close> block (lines 40 to 195): a response, or the value thrown, with the
  requests issued to the model.
\<close>

definition try_block :: "genai \<Rightarrow> form_data \<Rightarrow>
    (thrown + next_response) \<times> generate_content_parameters list" where
  "try_block ai fd =
     (let userImageFile = form_get fd ''userImage'';
          clothingImageFile = form_get fd ''clothingImage''
      in
        if \<not> form_truthy userImageFile \<or> \<not> form_truthy clothingImageFile then
          (Inr \<lparr>status = 400,
                body = ErrorJson ''Both userImage and clothingImage files are required'' None\<rparr>,
           [])
        else
          (case uploaded ''userImageFile'' userImageFile of
             Inl e \<Rightarrow> (Inl e, [])
           | Inr u \<Rightarrow>
          (case arrayBufferToBase64 (arrayBuffer u) of
             Inl e \<Rightarrow> (Inl e, [])
           | Inr userImageBase64 \<Rightarrow>
          (case uploaded ''clothingImageFile'' clothingImageFile of
             Inl e \<Rightarrow> (Inl e, [])
           | Inr c \<Rightarrow>
          (case arrayBufferToBase64 (arrayBuffer c) of
             Inl e \<Rightarrow> (Inl e, [])
           | Inr clothingImageBase64 \<Rightarrow>
          (case call_model ai
                  (build_request (or_default (file_type u) ''image/jpeg'') userImageBase64
                     (or_default (file_type c) ''image/png'') clothingImageBase64) of
             (Inl e, calls) \<Rightarrow> (Inl e, calls)
           | (Inr response, calls) \<Rightarrow> (process_response response, calls)))))))"

text \<open>
  The handler: the response, and the requests issued to the model.
\<close>

definition POST :: "genai \<Rightarrow> next_request \<Rightarrow> next_response \<times> generate_content_parameters list" where
  "POST ai req =
     (case formData req of
        Inl formError \<Rightarrow>
          (\<lparr>status = 400,
            body = ErrorJson ''Invalid request body: Failed to parse FormData.''
                     (Some (error_details formError))\<rparr>,
           [])
      | Inr fd \<Rightarrow>
          (case try_block ai fd of
             (Inr response, calls) \<Rightarrow> (response, calls)
           | (Inl error, calls) \<Rightarrow>
               (\<lparr>status = 500,
                 body = ErrorJson ''Failed to process virtual try-on request''
                          (Some (error_details error))\<rparr>,
                calls)))"

section \<open>The client form controller: \<^verbatim>\<open>page.tsx\<close>\<close>

text \<open>The seven state variables of the component, and their setters.\<close>

record page_state =
  userImage :: "File option"
  clothingImage :: "File option"
  userImagePreview :: "string option"
  clothingImagePreview :: "string option"
  resultImageUrl :: "string option"
  isLoading :: bool
  error :: "string option"

definition setUserImage :: "File option \<Rightarrow> page_state \<Rightarrow> page_state" where
  "setUserImage v st = st\<lparr>userImage := v\<rparr>"

definition setClothingImage :: "File option \<Rightarrow> page_state \<Rightarrow> page_state" where
  "setClothingImage v st = st\<lparr>clothingImage := v\<rparr>"

definition setUserImagePreview :: "string option \<Rightarrow> page_state \<Rightarrow> page_state" where
  "setUserImagePreview v st = st\<lparr>userImagePreview := v\<rparr>"

definition setClothingImagePreview :: "string option \<Rightarrow> page_state \<Rightarrow> page_state" where
  "setClothingImagePreview v st = st\<lparr>clothingImagePreview := v\<rparr>"

definition setImageUrl :: "string option \<Rightarrow> page_state \<Rightarrow> page_state" where
  "setImageUrl v st = st\<lparr>resultImageUrl := v\<rparr>"

definition setIsLoading :: "bool \<Rightarrow> page_state \<Rightarrow> page_state" where
  "setIsLoading v st = st\<lparr>isLoading := v\<rparr>"

definition setError :: "string option \<Rightarrow> page_state \<Rightarrow> page_state" where
  "setError v st = st\<lparr>error := v\<rparr>"

text \<open>
  \<^verbatim>\<open>
  const file = event.target.files?.[0];
  if (file) {
    if (file.size > 10 * 1024 * 1024) {
      setError('File size too large. Please use images smaller than 10MB.');
      return;
    }
    setImage(file);
    const reader = new FileReader();
    reader.onloadend = () => { setPreview(reader.result as string); };
    reader.readAsDataURL(file);
    setError(null);
  } else {
    setImage(null);
    setPreview(null);
  }
  \<close>
  The file reader is a parameter: the data URL it ends with for a file, or \<^verbatim>\<open>null\<close>
  when the read fails. The handler returns the state it leaves and the callbacks it has
  registered, which run later (\<^verbatim>\<open>onloadend\<close>).
\<close>

definition handleFileChange :: "(File \<Rightarrow> string option) \<Rightarrow> File option \<Rightarrow>
    (File option \<Rightarrow> page_state \<Rightarrow> page_state) \<Rightarrow> (string option \<Rightarrow> page_state \<Rightarrow> page_state) \<Rightarrow>
    page_state \<Rightarrow> page_state \<times> (page_state \<Rightarrow> page_state) list" where
  "handleFileChange readAsDataURL file setImage setPreview st =
     (case file of
        Some f \<Rightarrow>
          if file_size f > 10 * 1024 * 1024 then
            (setError (Some ''File size too large. Please use images smaller than 10MB.'') st, [])
          else
            (setError None (setImage (Some f) st), [setPreview (readAsDataURL f)])
      | None \<Rightarrow> (setPreview None (setImage None st), []))"

text \<open>Running the registered callbacks, in order.\<close>

fun run_callbacks :: "(page_state \<Rightarrow> page_state) list \<Rightarrow> page_state \<Rightarrow> page_state" where
  "run_callbacks [] st = st"
| "run_callbacks (cb # cbs) st = run_callbacks cbs (cb st)"

text \<open>
  What \<^verbatim>\<open>fetch\<close> and \<^verbatim>\<open>response.json()\<close> give. The parsed body is \<^verbatim>\<open>null\<close> or a
  value whose fields \<^verbatim>\<open>error\<close>, \<^verbatim>\<open>image\<close> and \<^verbatim>\<open>description\<close> are read (absent
  fields are \<^verbatim>\<open>undefined\<close>); reading a field of \<^verbatim>\<open>null\<close> throws a \<^verbatim>\<open>TypeError\<close>
  (the message is the one of V8).
\<close>

record fetch_request =
  url :: string
  http_method :: string
  request_body :: form_data

record json_result =
  result_error :: "string option"
  result_image :: "string option"
  result_description :: "string option"

datatype json_value = JsonNull | JsonObject json_result

record fetch_response =
  ok :: bool
  statusText :: string
  json :: "thrown + json_value"

datatype fetch_outcome = FetchResolves fetch_response | FetchRejects thrown

definition null_property_error :: "string \<Rightarrow> thrown" where
  "null_property_error field =
     ErrorObject (''Cannot read properties of null (reading '' @ [CHR 0x27] @ field
                  @ [CHR 0x27] @ '')'')"

text \<open>
  The \<^verbatim>\<open>try\<close> block of \<^verbatim>\<open>handleSubmit\<close> (lines 60 to 79): the state it leaves, or the
  value thrown.
\<close>

definition submit_try :: "fetch_outcome \<Rightarrow> page_state \<Rightarrow> thrown + page_state" where
  "submit_try outcome st =
     (case outcome of
        FetchRejects e \<Rightarrow> Inl e
      | FetchResolves response \<Rightarrow>
          (case json response of
             Inl e \<Rightarrow> Inl e
           | Inr JsonNull \<Rightarrow>
               Inl (null_property_error (if \<not> ok response then ''error'' else ''image''))
           | Inr (JsonObject result) \<Rightarrow>
               if \<not> ok response then
                 Inl (ErrorObject (or_fallback (result_error result)
                                     (''API Error: '' @ statusText response)))
               else if truthy (result_image result) then
                 Inr (setImageUrl (result_image result) st)
               else
                 Inl (ErrorObject ''API did not return a generated image. This might be due to safety filters or processing issues.'')))"

text \<open>
  \<^verbatim>\<open>handleSubmit\<close> (lines 45 to 89): the state it leaves and the requests it has issued.
  \<^verbatim>\<open>fetch\<close> is a parameter. The handler is asynchronous: after the guard and its first
  three setters it calls \<^verbatim>\<open>fetch\<close> and waits for it (line 61) and for
  \<^verbatim>\<open>response.json()\<close> (line 66), and it writes no state until both have ended. While it
  waits the browser runs other handlers on the same state (a file selection with its
  preview callback, a reset): their joint effect on the state is the parameter
  \<^verbatim>\<open>pending\<close>, the identity when none runs. The setters after the wait act on the
  state as these handlers left it.
\<close>

definition handleSubmit :: "(fetch_request \<Rightarrow> fetch_outcome) \<Rightarrow> (page_state \<Rightarrow> page_state) \<Rightarrow>
    page_state \<Rightarrow> page_state \<times> fetch_request list" where
  "handleSubmit fetch pending st =
     (case (userImage st, clothingImage st) of
        (Some u, Some c) \<Rightarrow>
          (let st1 = setImageUrl None (setError None (setIsLoading True st));
               request = \<lparr>url = ''/api/tryon'', http_method = ''POST'',
                          request_body = [(''userImage'', FileValue u),
                                          (''clothingImage'', FileValue c)]\<rparr>;
               outcome = fetch request;
               st2 = pending st1;
               st3 = (case submit_try outcome st2 of
                        Inr st' \<Rightarrow> st'
                      | Inl err \<Rightarrow>
                          setImageUrl None
                            (setError
                               (Some (case err of
                                        ErrorObject message \<Rightarrow> message
                                      | OtherValue v \<Rightarrow> ''An error occurred during image generation.''))
                               st2))
           in (setIsLoading False st3, [request]))
      | _ \<Rightarrow>
          (setError (Some ''Please upload both your photo and a clothing item image.'') st, []))"

section \<open>Notions used to state the properties\<close>

text \<open>
  The request that the handler builds for two uploaded files: the declared MIME type of
  each, or its default, and the base64 text of its bytes.
\<close>

definition issued_request :: "File \<Rightarrow> File \<Rightarrow> generate_content_parameters" where
  "issued_request u c =
     build_request (or_default (file_type u) ''image/jpeg'') (base64_encode (file_bytes u))
       (or_default (file_type c) ''image/png'') (base64_encode (file_bytes c))"

text \<open>
  The segments of a candidate that the loop treats as inline data (the field
  \<^verbatim>\<open>inlineData\<close> is present) and as text (no inline data, and a non-empty text), and
  the last of each kind.
\<close>

definition inline_segments :: "part list \<Rightarrow> part list" where
  "inline_segments ps = filter (\<lambda>p. inlineData p \<noteq> None) ps"

definition text_segments :: "part list \<Rightarrow> part list" where
  "text_segments ps = filter (\<lambda>p. inlineData p = None \<and> truthy (text' p)) ps"

definition last_inline :: "part list \<Rightarrow> blob option" where
  "last_inline ps = (if inline_segments ps = [] then None else inlineData (last (inline_segments ps)))"

definition last_text :: "part list \<Rightarrow> string option" where
  "last_text ps = (if text_segments ps = [] then None else text' (last (text_segments ps)))"

text \<open>
  The data URL of an inline-data segment: \<^verbatim>\<open>data:<mime>;base64,<data>\<close>, with
  \<^verbatim>\<open>image/png\<close> for a missing or empty MIME type; none when the data is missing or
  empty.
\<close>

definition data_url :: "blob \<Rightarrow> string option" where
  "data_url b =
     (case data b of
        None \<Rightarrow> None
      | Some d \<Rightarrow>
          if d = [] then None
          else Some (''data:'' @ or_fallback (mimeType b) ''image/png'' @ '';base64,'' @ d))"

text \<open>The parts of a candidate, none when the content or its parts are missing.\<close>

definition parts_of :: "candidate \<Rightarrow> part list" where
  "parts_of c = (case candidate_parts c of None \<Rightarrow> [] | Some ps \<Rightarrow> ps)"

text \<open>
  The outcome of \<^verbatim>\<open>fetch\<close> with which a submission succeeds: a response with a success
  status whose body is an object with a non-empty \<^verbatim>\<open>image\<close>.
\<close>

definition returns_image :: "fetch_outcome \<Rightarrow> bool" where
  "returns_image outcome =
     (case outcome of
        FetchRejects e \<Rightarrow> False
      | FetchResolves response \<Rightarrow>
          ok response \<and>
          (case json response of
             Inr (JsonObject result) \<Rightarrow> truthy (result_image result)
           | _ \<Rightarrow> False))"

text \<open>The request that \<^verbatim>\<open>handleSubmit\<close> issues for two selected files.\<close>

definition tryon_fetch :: "File \<Rightarrow> File \<Rightarrow> fetch_request" where
  "tryon_fetch u c =
     \<lparr>url = ''/api/tryon'', http_method = ''POST'',
      request_body = [(''userImage'', FileValue u), (''clothingImage'', FileValue c)]\<rparr>"

subsection \<open>Example inputs\<close>

definition person_file :: File where
  "person_file =
     \<lparr>file_name = ''me.webp'', file_type = ''image/webp'', file_bytes = [0x4D, 0x61, 0x6E]\<rparr>"

definition garment_file :: File where
  "garment_file = \<lparr>file_name = ''shirt'', file_type = [], file_bytes = [0x4D, 0x61]\<rparr>"

definition untyped_file :: File where
  "untyped_file = \<lparr>file_name = ''photo'', file_type = [], file_bytes = [0x4D]\<rparr>"

definition empty_file :: File where
  "empty_file = \<lparr>file_name = ''empty.png'', file_type = ''image/png'', file_bytes = []\<rparr>"

definition file_of_size :: "nat \<Rightarrow> File" where
  "file_of_size n = \<lparr>file_name = ''big.png'', file_type = ''image/png'', file_bytes = replicate n 0\<rparr>"

definition upload_form :: form_data where
  "upload_form = [(''userImage'', FileValue person_file), (''clothingImage'', FileValue garment_file)]"

definition upload_request :: next_request where
  "upload_request = \<lparr>formData = Inr upload_form\<rparr>"

definition untyped_form :: form_data where
  "untyped_form = [(''userImage'', FileValue untyped_file), (''clothingImage'', FileValue garment_file)]"

definition untyped_request :: next_request where
  "untyped_request = \<lparr>formData = Inr untyped_form\<rparr>"

definition broken_request :: next_request where
  "broken_request = \<lparr>formData = Inl (ErrorObject ''Failed to parse body as FormData.'')\<rparr>"

definition one_field_request :: next_request where
  "one_field_request = \<lparr>formData = Inr [(''userImage'', FileValue person_file)]\<rparr>"

definition response_of_parts :: "part list \<Rightarrow> generate_content_response" where
  "response_of_parts ps =
     \<lparr>candidates = Some [\<lparr>candidate_content = Some \<lparr>role = Some ''model'', parts = Some ps\<rparr>\<rparr>],
      promptFeedback = None\<rparr>"

definition two_images :: "part list" where
  "two_images =
     [inline_part ''image/png'' ''Rmlyc3Q='', text_part ''first'',
      inline_part ''image/jpeg'' ''U2Vjb25k'', text_part ''second'']"

definition empty_image :: "part list" where
  "empty_image = [inline_part ''image/png'' [], text_part ''no image'']"

definition one_image :: "part list" where
  "one_image = [text_part ''Here is the result.'', inline_part ''image/png'' ''iVBORw0KGgo='']"

definition blocked_response :: generate_content_response where
  "blocked_response = \<lparr>candidates = None, promptFeedback = Some \<lparr>blockReason = Some ''SAFETY''\<rparr>\<rparr>"

definition prohibited_response :: generate_content_response where
  "prohibited_response =
     \<lparr>candidates = Some [], promptFeedback = Some \<lparr>blockReason = Some ''PROHIBITED_CONTENT''\<rparr>\<rparr>"

definition unexplained_response :: generate_content_response where
  "unexplained_response = \<lparr>candidates = None, promptFeedback = Some \<lparr>blockReason = None\<rparr>\<rparr>"

definition bare_response :: generate_content_response where
  "bare_response = \<lparr>candidates = Some [], promptFeedback = None\<rparr>"

definition image_ai :: genai where
  "image_ai request = Resolves (response_of_parts one_image)"

definition two_images_ai :: genai where
  "two_images_ai request = Resolves (response_of_parts two_images)"

definition empty_image_ai :: genai where
  "empty_image_ai request = Resolves (response_of_parts empty_image)"

definition blocked_ai :: genai where
  "blocked_ai request = Resolves blocked_response"

definition prohibited_ai :: genai where
  "prohibited_ai request = Resolves prohibited_response"

definition unexplained_ai :: genai where
  "unexplained_ai request = Resolves unexplained_response"

definition bare_ai :: genai where
  "bare_ai request = Resolves bare_response"

definition rejecting_ai :: genai where
  "rejecting_ai request = Rejects (ErrorObject ''quota exceeded'')"

definition initial_state :: page_state where
  "initial_state =
     \<lparr>userImage = None, clothingImage = None, userImagePreview = None,
      clothingImagePreview = None, resultImageUrl = None, isLoading = False, error = None\<rparr>"

definition no_reader :: "File \<Rightarrow> string option" where
  "no_reader f = None"

definition fixed_reader :: "File \<Rightarrow> string option" where
  "fixed_reader f = Some ''data:image/webp;base64,TWFu''"

text \<open>
  What runs while a request is pending: nothing, or the selection of a file of more than
  10MB for the clothing slot.
\<close>

definition no_other_handler :: "page_state \<Rightarrow> page_state" where
  "no_other_handler st = st"

definition oversize_pick :: "page_state \<Rightarrow> page_state" where
  "oversize_pick st =
     fst (handleFileChange no_reader (Some (file_of_size 10485761)) setClothingImage
            setClothingImagePreview st)"

definition shown_state :: page_state where
  "shown_state =
     \<lparr>userImage = None, clothingImage = Some garment_file, userImagePreview = None,
      clothingImagePreview = Some ''data:;base64,TWE='',
      resultImageUrl = Some ''data:image/png;base64,iVBORw0KGgo='', isLoading = False,
      error = None\<rparr>"

definition ready_state :: page_state where
  "ready_state =
     \<lparr>userImage = Some person_file, clothingImage = Some garment_file,
      userImagePreview = None, clothingImagePreview = None,
      resultImageUrl = Some ''data:image/png;base64,b2xk'', isLoading = False,
      error = Some ''File size too large. Please use images smaller than 10MB.''\<rparr>"

definition image_fetch :: "fetch_request \<Rightarrow> fetch_outcome" where
  "image_fetch request =
     FetchResolves
       \<lparr>ok = True, statusText = ''OK'',
        json = Inr (JsonObject \<lparr>result_error = None,
                                result_image = Some ''data:image/png;base64,iVBORw0KGgo='',
                                result_description = Some ''Here is the result.''\<rparr>)\<rparr>"

definition failing_fetch :: "fetch_request \<Rightarrow> fetch_outcome" where
  "failing_fetch request = FetchRejects (ErrorObject ''Failed to fetch'')"

section \<open>Base64: the encoding round trip\<close>

lemma dec6_enc6: "n < 64 \<Longrightarrow> dec6 (enc6 n) = Some n"
  by (auto simp add: enc6_def dec6_def Let_def)

lemma enc6_not_pad: "n < 64 \<Longrightarrow> enc6 n \<noteq> CHR ''=''"
proof
  assume "n < 64" and "enc6 n = CHR ''=''"
  then have "(of_char (enc6 n) :: nat) = 61" by simp
  with \<open>n < 64\<close> show False
    by (auto simp add: enc6_def split: if_splits)
qed

lemma enc6_alphabet:
  "enc6 0 = base64_alphabet ! 0" "enc6 25 = base64_alphabet ! 25"
  "enc6 26 = base64_alphabet ! 26" "enc6 51 = base64_alphabet ! 51"
  "enc6 52 = base64_alphabet ! 52" "enc6 61 = base64_alphabet ! 61"
  "enc6 62 = base64_alphabet ! 62" "enc6 63 = base64_alphabet ! 63"
  by (simp_all add: enc6_def base64_alphabet_def char_of_def bit_0)

text \<open>The test vectors of RFC 4648, section 10 (the bytes of \<^verbatim>\<open>foobar\<close>).\<close>

lemma rfc4648_test_vectors:
  "base64_encode [] = []"
  "base64_encode [0x66] = ''Zg==''"
  "base64_encode [0x66, 0x6F] = ''Zm8=''"
  "base64_encode [0x66, 0x6F, 0x6F] = ''Zm9v''"
  "base64_encode [0x66, 0x6F, 0x6F, 0x62] = ''Zm9vYg==''"
  "base64_encode [0x66, 0x6F, 0x6F, 0x62, 0x61] = ''Zm9vYmE=''"
  "base64_encode [0x66, 0x6F, 0x6F, 0x62, 0x61, 0x72] = ''Zm9vYmFy''"
  by (simp_all add: enc6_def char_of_def bit_0)

lemma unat_byte_less: "unat (a :: byte) < 256"
  using unsigned_less [of a, where ?'a = nat] by simp

lemma high_sextet: "unat (a :: byte) div 4 < 64"
  using unat_byte_less [of a] by simp

lemma low_nibble: "unat (b :: byte) div 16 < 16"
  using unat_byte_less [of b] by simp

lemma low_pair: "unat (c :: byte) div 64 < 4"
  using unat_byte_less [of c] by simp

lemma sextet_bounds:
  "unat (a :: byte) mod 4 * 16 < 64"
  "unat a mod 4 * 16 + unat (b :: byte) div 16 < 64"
  "unat (b :: byte) mod 16 * 4 < 64"
  "unat b mod 16 * 4 + unat (c :: byte) div 64 < 64"
  "unat (c :: byte) mod 64 < 64"
proof -
  have a: "unat a mod 4 < 4" and b: "unat b mod 16 < 16" by simp_all
  from a show "unat a mod 4 * 16 < 64" by linarith
  from a low_nibble [of b] show "unat a mod 4 * 16 + unat b div 16 < 64" by linarith
  from b show "unat b mod 16 * 4 < 64" by linarith
  from b low_pair [of c] show "unat b mod 16 * 4 + unat c div 64 < 64" by linarith
  show "unat c mod 64 < 64" by simp
qed

lemma regroup_first:
  "(a::nat) div 4 * 4 + (a mod 4 * 16 + b div 16) div 16 = a" if "b div 16 < 16"
  using that by simp

lemma regroup_second:
  "((a::nat) mod 4 * 16 + b div 16) mod 16 * 16 + (b mod 16 * 4 + c div 64) div 4 = b"
  if "b div 16 < 16" "c div 64 < 4"
  using that by simp

lemma regroup_third:
  "((b::nat) mod 16 * 4 + c div 64) mod 4 * 64 + c mod 64 = c" if "c div 64 < 4"
  using that by simp

lemma regroup_pad:
  "((a::nat) mod 4 * 16) mod 16 = 0"
  "(a::nat) div 4 * 4 + (a mod 4 * 16) div 16 = a"
  "((b::nat) mod 16 * 4) mod 4 = 0"
  by simp_all

lemma regroup_pad_second:
  "((a::nat) mod 4 * 16 + b div 16) mod 16 * 16 + (b mod 16 * 4) div 4 = b" if "b div 16 < 16"
  using that by simp

lemma decode_one: "base64_decode (base64_encode [a]) = Some [a]"
  by (simp add: dec6_enc6 high_sextet sextet_bounds regroup_pad)

lemma decode_two: "base64_decode (base64_encode [a, b]) = Some [a, b]"
  by (simp add: dec6_enc6 high_sextet sextet_bounds enc6_not_pad regroup_pad
      regroup_pad_second regroup_first low_nibble)

lemma decode_encode: "base64_decode (base64_encode bs) = Some bs"
proof (induction bs rule: base64_encode.induct)
  case 1
  show ?case by simp
next
  case (2 a)
  show ?case by (rule decode_one)
next
  case (3 a b)
  show ?case by (rule decode_two)
next
  case (4 a b c rest)
  then show ?case
    by (simp add: dec6_enc6 high_sextet sextet_bounds enc6_not_pad regroup_first
        regroup_second regroup_third low_nibble low_pair)
qed

lemma binary_loop_eq:
  "binary_loop bytes i binary = binary @ map fromCharCode (drop i bytes)"
proof (induction bytes i binary rule: binary_loop.induct)
  case (1 bytes i binary)
  show ?case
  proof (cases "i < length bytes")
    case True
    then have "drop i bytes = bytes ! i # drop (Suc i) bytes"
      by (simp add: Cons_nth_drop_Suc)
    with True "1" show ?thesis
      by (subst binary_loop.simps) simp
  next
    case False
    then show ?thesis
      by (subst binary_loop.simps) simp
  qed
qed

lemma fromCharCode_latin1: "\<not> 255 < fromCharCode b"
proof -
  have "unat (ucast b :: code_unit) = unat b"
    using unat_byte_less [of b] by (simp add: unsigned_ucast_eq take_bit_eq_mod)
  then have "unat (fromCharCode b) < 256"
    using unat_byte_less [of b] by (simp add: fromCharCode_def)
  then show ?thesis
    by (simp add: word_less_nat_alt)
qed

lemma fromCharCode_byte: "ucast (fromCharCode b) = b"
  by (simp add: fromCharCode_def ucast_up_ucast_id is_up)

lemma binary_is_latin1: "list_ex (\<lambda>u. 255 < u) (map fromCharCode bytes) = False"
  by (induction bytes) (simp_all add: fromCharCode_latin1)

lemma binary_bytes: "map ucast (map fromCharCode bytes) = bytes"
  by (induction bytes) (simp_all add: fromCharCode_byte)

lemma btoa_binary: "btoa (map fromCharCode bytes) = Inr (base64_encode bytes)"
  unfolding btoa_def by (simp only: binary_is_latin1 binary_bytes if_False)

lemma arrayBufferToBase64_eq: "arrayBufferToBase64 buffer = Inr (base64_encode buffer)"
  by (simp add: arrayBufferToBase64_def binary_loop_eq btoa_binary)

text \<open>
  Claim C8. For every byte buffer, \<^verbatim>\<open>arrayBufferToBase64\<close> returns (it does not
  throw) the RFC 4648 base64 encoding of the bytes of the buffer, and decoding that output
  gives back exactly the buffer.
\<close>

theorem arrayBufferToBase64_rfc4648:
  "arrayBufferToBase64 buffer = Inr (base64_encode buffer)
   \<and> base64_decode (base64_encode buffer) = Some buffer"
  by (simp add: arrayBufferToBase64_eq decode_encode)

theorem arrayBufferToBase64_rfc4648_witness:
  "arrayBufferToBase64 [0x4D, 0x61] = Inr ''TWE=''
   \<and> base64_decode ''TWE='' = Some [0x4D, 0x61]"
  using arrayBufferToBase64_rfc4648 [of "[0x4D, 0x61]"]
  by (simp add: enc6_def char_of_def bit_0)

section \<open>The extraction loop\<close>

lemma for_parts_snoc: "for_parts (ps @ [p]) v = process_part p (for_parts ps v)"
  by (induction ps arbitrary: v) simp_all

lemma imageData_for_parts:
  "imageData (for_parts ps v) =
     (case last_inline ps of None \<Rightarrow> imageData v | Some b \<Rightarrow> data b)"
proof (induction ps rule: rev_induct)
  case Nil
  show ?case by (simp add: last_inline_def inline_segments_def)
next
  case (snoc p ps)
  then show ?case
    by (cases "inlineData p")
      (simp_all add: for_parts_snoc process_part_def last_inline_def inline_segments_def)
qed

lemma imageMimeType_for_parts:
  "imageMimeType (for_parts ps v) =
     (case last_inline ps of None \<Rightarrow> imageMimeType v
      | Some b \<Rightarrow> or_fallback (mimeType b) ''image/png'')"
proof (induction ps rule: rev_induct)
  case Nil
  show ?case by (simp add: last_inline_def inline_segments_def)
next
  case (snoc p ps)
  then show ?case
    by (cases "inlineData p")
      (simp_all add: for_parts_snoc process_part_def last_inline_def inline_segments_def)
qed

lemma textResponse_for_parts:
  "textResponse (for_parts ps v) =
     (case last_text ps of None \<Rightarrow> textResponse v | Some t \<Rightarrow> Some t)"
proof (induction ps rule: rev_induct)
  case Nil
  show ?case by (simp add: last_text_def text_segments_def)
next
  case (snoc p ps)
  show ?case
  proof (cases "inlineData p")
    case None
    with snoc show ?thesis
      by (cases "text' p")
        (simp_all add: for_parts_snoc process_part_def last_text_def text_segments_def)
  next
    case (Some b)
    with snoc show ?thesis
      by (simp add: for_parts_snoc process_part_def last_text_def text_segments_def)
  qed
qed

text \<open>
  Claim C1, amended. The loop over the segments of the first candidate runs to the end of
  the list and assigns at every segment of a kind, so the LAST inline-data segment gives
  the image data and the MIME type (\<^verbatim>\<open>image/png\<close> when it declares none), and the
  LAST text segment gives the description: a later segment of the same kind replaces an
  earlier one.
\<close>

theorem extraction_takes_last:
  "imageData (for_parts ps initial_extracted) =
     (case last_inline ps of None \<Rightarrow> None | Some b \<Rightarrow> data b)
   \<and> imageMimeType (for_parts ps initial_extracted) =
     (case last_inline ps of None \<Rightarrow> ''image/png''
      | Some b \<Rightarrow> or_fallback (mimeType b) ''image/png'')
   \<and> textResponse (for_parts ps initial_extracted) = last_text ps"
proof (intro conjI)
  show "imageData (for_parts ps initial_extracted) =
      (case last_inline ps of None \<Rightarrow> None | Some b \<Rightarrow> data b)"
    by (cases "last_inline ps") (simp_all add: imageData_for_parts initial_extracted_def)
  show "imageMimeType (for_parts ps initial_extracted) =
      (case last_inline ps of None \<Rightarrow> ''image/png''
       | Some b \<Rightarrow> or_fallback (mimeType b) ''image/png'')"
    by (cases "last_inline ps") (simp_all add: imageMimeType_for_parts initial_extracted_def)
  show "textResponse (for_parts ps initial_extracted) = last_text ps"
    by (cases "last_text ps") (simp_all add: textResponse_for_parts initial_extracted_def)
qed

theorem extraction_takes_last_witness:
  "imageData (for_parts two_images initial_extracted) = Some ''U2Vjb25k''
   \<and> imageMimeType (for_parts two_images initial_extracted) = ''image/jpeg''
   \<and> textResponse (for_parts two_images initial_extracted) = Some ''second''"
  using extraction_takes_last [of two_images]
  by (simp add: two_images_def last_inline_def last_text_def inline_segments_def
      text_segments_def inline_part_def text_part_def)

text \<open>
  Claim C1 as stated fails: with two inline-data segments and two text segments, the image
  and the description extracted are not those of the first segments.
\<close>

theorem first_segment_replaced:
  "inline_segments two_images \<noteq> []
   \<and> inlineData (hd (inline_segments two_images))
       = Some \<lparr>data = Some ''Rmlyc3Q='', mimeType = Some ''image/png''\<rparr>
   \<and> imageData (for_parts two_images initial_extracted) \<noteq> Some ''Rmlyc3Q=''
   \<and> text' (hd (text_segments two_images)) = Some ''first''
   \<and> textResponse (for_parts two_images initial_extracted) \<noteq> Some ''first''"
  by (simp add: two_images_def inline_segments_def text_segments_def inline_part_def
      text_part_def process_part_def initial_extracted_def)

section \<open>The handler, branch by branch\<close>

lemma POST_unparseable:
  "formData req = Inl formError \<Longrightarrow>
   POST ai req =
     (\<lparr>status = 400,
       body = ErrorJson ''Invalid request body: Failed to parse FormData.''
                (Some (error_details formError))\<rparr>, [])"
  by (simp add: POST_def)

lemma try_block_missing:
  "form_get fd ''userImage'' = None \<or> form_get fd ''clothingImage'' = None \<Longrightarrow>
   try_block ai fd =
     (Inr \<lparr>status = 400,
           body = ErrorJson ''Both userImage and clothingImage files are required'' None\<rparr>, [])"
  by (auto simp add: try_block_def Let_def)

lemma try_block_files:
  assumes "form_get fd ''userImage'' = Some (FileValue u)"
    and "form_get fd ''clothingImage'' = Some (FileValue c)"
  shows "try_block ai fd =
     (case call_model ai (issued_request u c) of
        (Inl e, calls) \<Rightarrow> (Inl e, calls)
      | (Inr response, calls) \<Rightarrow> (process_response response, calls))"
  using assms
  by (simp add: try_block_def Let_def arrayBufferToBase64_eq arrayBuffer_def issued_request_def)

lemma call_model_resolves:
  "ai request = Resolves response \<Longrightarrow> call_model ai request = (Inr response, [request])"
  by (simp add: call_model_def)

lemma snd_call_model: "snd (call_model ai request) = [request]"
proof (cases "ai request")
  case (Resolves response)
  then show ?thesis by (simp add: call_model_def)
next
  case (Rejects e)
  then show ?thesis by (cases e) (simp_all add: call_model_def)
qed

lemma POST_resolves:
  assumes "formData req = Inr fd"
    and "form_get fd ''userImage'' = Some (FileValue u)"
    and "form_get fd ''clothingImage'' = Some (FileValue c)"
    and "ai (issued_request u c) = Resolves response"
  shows "POST ai req =
     (case process_response response of
        Inr r \<Rightarrow> r
      | Inl e \<Rightarrow> \<lparr>status = 500,
                  body = ErrorJson ''Failed to process virtual try-on request''
                           (Some (error_details e))\<rparr>,
      [issued_request u c])"
  using assms
  by (cases "process_response response")
    (simp_all add: POST_def try_block_files call_model_resolves)

lemma POST_calls:
  assumes "formData req = Inr fd"
    and "form_get fd ''userImage'' = Some (FileValue u)"
    and "form_get fd ''clothingImage'' = Some (FileValue c)"
  shows "snd (POST ai req) = [issued_request u c]"
proof -
  obtain r calls where cm: "call_model ai (issued_request u c) = (r, calls)"
    by (cases "call_model ai (issued_request u c)")
  with snd_call_model [of ai "issued_request u c"] have "calls = [issued_request u c]"
    by simp
  with cm assms show ?thesis
    by (cases r; cases "process_response (projr r)")
      (simp_all add: POST_def try_block_files)
qed

lemma process_response_empty:
  assumes "candidates response = None \<or> candidates response = Some []"
  shows "process_response response =
     (if truthy (safetyFeedback response)
      then Inl (ErrorObject (''Content generation failed due to safety settings: ''
                             @ the (safetyFeedback response)))
      else Inl (ErrorObject ''Received an unexpected or empty response from the API.''))"
  using assms by (auto simp add: process_response_def)

lemma process_response_candidate:
  assumes "candidates response = Some (cand # rest)"
  shows "process_response response =
     Inr \<lparr>status = 200, body = result_json (for_parts (parts_of cand) initial_extracted)\<rparr>"
  using assms
  by (cases "candidate_parts cand") (simp_all add: process_response_def parts_of_def)

lemma result_json_for_parts:
  "result_json (for_parts ps initial_extracted) =
     ResultJson (case last_inline ps of None \<Rightarrow> None | Some b \<Rightarrow> data_url b)
       (case last_text ps of None \<Rightarrow> ''AI description not available.'' | Some t \<Rightarrow> t)"
proof -
  have image: "(if truthy (imageData (for_parts ps initial_extracted))
       then Some (''data:'' @ imageMimeType (for_parts ps initial_extracted) @ '';base64,''
                  @ the (imageData (for_parts ps initial_extracted)))
       else None) = (case last_inline ps of None \<Rightarrow> None | Some b \<Rightarrow> data_url b)"
  proof (cases "last_inline ps")
    case None
    then show ?thesis
      by (simp add: imageData_for_parts imageMimeType_for_parts initial_extracted_def)
  next
    case (Some b)
    then show ?thesis
      by (cases "data b")
        (simp_all add: imageData_for_parts imageMimeType_for_parts data_url_def)
  qed
  have "last_text ps = Some t \<Longrightarrow> t \<noteq> []" for t
  proof -
    assume lt: "last_text ps = Some t"
    then have ne: "text_segments ps \<noteq> []"
      by (auto simp add: last_text_def split: if_splits)
    then have "last (text_segments ps) \<in> set (text_segments ps)"
      by simp
    then have "truthy (text' (last (text_segments ps)))"
      by (simp add: text_segments_def)
    with lt ne show "t \<noteq> []"
      by (simp add: last_text_def)
  qed
  then have description: "or_fallback (textResponse (for_parts ps initial_extracted))
       ''AI description not available.''
     = (case last_text ps of None \<Rightarrow> ''AI description not available.'' | Some t \<Rightarrow> t)"
    by (cases "last_text ps") (simp_all add: textResponse_for_parts initial_extracted_def)
  show ?thesis
    unfolding result_json_def by (simp only: image description)
qed

section \<open>Properties of the proxy endpoint\<close>

text \<open>
  Claim C6. A request whose body does not parse as a form is answered with status 400 and
  an error message; a parsed form without the field \<^verbatim>\<open>userImage\<close> or without the field
  \<^verbatim>\<open>clothingImage\<close> is answered with status 400; in both cases no request is issued
  to the model.
\<close>

theorem bad_request_400:
  "(formData req = Inl formError \<longrightarrow>
      POST ai req =
        (\<lparr>status = 400,
          body = ErrorJson ''Invalid request body: Failed to parse FormData.''
                   (Some (error_details formError))\<rparr>, []))
   \<and> (formData req = Inr fd
        \<and> (form_get fd ''userImage'' = None \<or> form_get fd ''clothingImage'' = None) \<longrightarrow>
      POST ai req =
        (\<lparr>status = 400,
          body = ErrorJson ''Both userImage and clothingImage files are required'' None\<rparr>,
         []))"
  by (simp add: POST_unparseable POST_def try_block_missing)

theorem bad_request_400_witness:
  "POST rejecting_ai broken_request =
     (\<lparr>status = 400,
       body = ErrorJson ''Invalid request body: Failed to parse FormData.''
                (Some ''Failed to parse body as FormData.'')\<rparr>, [])
   \<and> POST rejecting_ai one_field_request =
     (\<lparr>status = 400,
       body = ErrorJson ''Both userImage and clothingImage files are required'' None\<rparr>, [])"
  using
    bad_request_400 [of broken_request "ErrorObject ''Failed to parse body as FormData.''"
      rejecting_ai "[]"]
    bad_request_400 [of one_field_request "ErrorObject []" rejecting_ai
      "[(''userImage'', FileValue person_file)]"]
  by (simp add: broken_request_def one_field_request_def form_get_def)

text \<open>
  Claim C3. When the form carries both files and the model answers with no candidate
  (\<^verbatim>\<open>candidates\<close> missing or empty), the handler answers with status 500. The body is
  \<^verbatim>\<open>{ error, details }\<close>: \<^verbatim>\<open>error\<close> is the same fixed text for every response, and
  \<^verbatim>\<open>details\<close> is the message of the error thrown. When the response has a
  \<^verbatim>\<open>promptFeedback\<close> whose \<^verbatim>\<open>blockReason\<close> is a non-empty text, \<^verbatim>\<open>details\<close> is
  the safety message followed by that block reason; when \<^verbatim>\<open>promptFeedback\<close> or its
  \<^verbatim>\<open>blockReason\<close> is missing or empty, \<^verbatim>\<open>details\<close> is the fixed message about an
  unexpected response. The block reason reaches the client in \<^verbatim>\<open>details\<close> only.
\<close>

theorem no_candidates_500:
  assumes "formData req = Inr fd"
    and "map_of fd ''userImage'' = Some (FileValue u)"
    and "map_of fd ''clothingImage'' = Some (FileValue c)"
    and "ai (issued_request u c) = Resolves response"
    and "candidates response = None \<or> candidates response = Some []"
  shows "(promptFeedback response = Some feedback \<and> blockReason feedback = Some reason
          \<and> reason \<noteq> [] \<longrightarrow>
      fst (POST ai req) =
        \<lparr>status = 500,
         body = ErrorJson ''Failed to process virtual try-on request''
                  (Some (''Content generation failed due to safety settings: '' @ reason))\<rparr>)
   \<and> (promptFeedback response = None
        \<or> promptFeedback response = Some feedback
           \<and> (blockReason feedback = None \<or> blockReason feedback = Some []) \<longrightarrow>
      fst (POST ai req) =
        \<lparr>status = 500,
         body = ErrorJson ''Failed to process virtual try-on request''
                  (Some ''Received an unexpected or empty response from the API.'')\<rparr>)"
proof -
  from assms(2,3) have files: "form_get fd ''userImage'' = Some (FileValue u)"
    "form_get fd ''clothingImage'' = Some (FileValue c)"
    by (simp_all add: form_get_def)
  note run = POST_resolves [of req fd u c ai response, OF assms(1) files assms(4)]
  note thrown = process_response_empty [OF assms(5)]
  show ?thesis
  proof (intro conjI impI)
    assume "promptFeedback response = Some feedback \<and> blockReason feedback = Some reason
      \<and> reason \<noteq> []"
    then have "safetyFeedback response = Some reason" and "truthy (safetyFeedback response)"
      by (simp_all add: safetyFeedback_def)
    then show "fst (POST ai req) =
        \<lparr>status = 500,
         body = ErrorJson ''Failed to process virtual try-on request''
                  (Some (''Content generation failed due to safety settings: '' @ reason))\<rparr>"
      by (simp add: run thrown)
  next
    assume "promptFeedback response = None
        \<or> promptFeedback response = Some feedback
           \<and> (blockReason feedback = None \<or> blockReason feedback = Some [])"
    then have "\<not> truthy (safetyFeedback response)"
      by (auto simp add: safetyFeedback_def)
    then show "fst (POST ai req) =
        \<lparr>status = 500,
         body = ErrorJson ''Failed to process virtual try-on request''
                  (Some ''Received an unexpected or empty response from the API.'')\<rparr>"
      by (simp add: run thrown)
  qed
qed

theorem no_candidates_500_witness:
  "fst (POST blocked_ai upload_request) =
     \<lparr>status = 500,
      body = ErrorJson ''Failed to process virtual try-on request''
               (Some ''Content generation failed due to safety settings: SAFETY'')\<rparr>
   \<and> fst (POST prohibited_ai upload_request) =
     \<lparr>status = 500,
      body = ErrorJson ''Failed to process virtual try-on request''
               (Some ''Content generation failed due to safety settings: PROHIBITED_CONTENT'')\<rparr>
   \<and> fst (POST bare_ai upload_request) =
     \<lparr>status = 500,
      body = ErrorJson ''Failed to process virtual try-on request''
               (Some ''Received an unexpected or empty response from the API.'')\<rparr>
   \<and> fst (POST unexplained_ai upload_request) =
     \<lparr>status = 500,
      body = ErrorJson ''Failed to process virtual try-on request''
               (Some ''Received an unexpected or empty response from the API.'')\<rparr>"
  using
    no_candidates_500 [of upload_request upload_form person_file garment_file
      blocked_ai blocked_response "\<lparr>blockReason = Some ''SAFETY''\<rparr>" "''SAFETY''"]
    no_candidates_500 [of upload_request upload_form person_file garment_file
      prohibited_ai prohibited_response "\<lparr>blockReason = Some ''PROHIBITED_CONTENT''\<rparr>"
      "''PROHIBITED_CONTENT''"]
    no_candidates_500 [of upload_request upload_form person_file garment_file
      bare_ai bare_response "\<lparr>blockReason = None\<rparr>" "[]"]
    no_candidates_500 [of upload_request upload_form person_file garment_file
      unexplained_ai unexplained_response "\<lparr>blockReason = None\<rparr>" "[]"]
  by (simp add: upload_request_def upload_form_def blocked_ai_def prohibited_ai_def
      bare_ai_def unexplained_ai_def blocked_response_def prohibited_response_def
      bare_response_def unexplained_response_def)

text \<open>
  Claim C4, amended. When the form carries both files and the model answers with at least
  one candidate, the handler answers with status 200. \<^verbatim>\<open>image\<close> is the data URL
  \<^verbatim>\<open>data:<mime>;base64,<data>\<close> of the LAST inline-data segment of the first candidate
  (\<^verbatim>\<open>image/png\<close> when that segment declares no MIME type), and is \<^verbatim>\<open>null\<close> when there
  is no inline-data segment or when the data of the last one is missing or empty.
  \<^verbatim>\<open>description\<close> is the text of the LAST segment that has no inline data and a
  non-empty text, and the placeholder when there is none.
\<close>

theorem candidate_200:
  assumes "formData req = Inr fd"
    and "form_get fd ''userImage'' = Some (FileValue u)"
    and "form_get fd ''clothingImage'' = Some (FileValue c)"
    and "ai (issued_request u c) = Resolves response"
    and "candidates response = Some (cand # rest)"
  shows "fst (POST ai req) =
     \<lparr>status = 200,
      body = ResultJson
        (case last_inline (parts_of cand) of None \<Rightarrow> None | Some b \<Rightarrow> data_url b)
        (case last_text (parts_of cand) of
           None \<Rightarrow> ''AI description not available.''
         | Some t \<Rightarrow> t)\<rparr>"
proof -
  note run = POST_resolves [of req fd u c ai response, OF assms(1-4)]
  show ?thesis
    by (simp add: run process_response_candidate [OF assms(5)] result_json_for_parts)
qed

theorem candidate_200_witness:
  "fst (POST image_ai upload_request) =
     \<lparr>status = 200,
      body = ResultJson (Some ''data:image/png;base64,iVBORw0KGgo='') ''Here is the result.''\<rparr>"
  using candidate_200 [of upload_request upload_form person_file garment_file
      image_ai "response_of_parts one_image"
      "\<lparr>candidate_content = Some \<lparr>role = Some ''model'', parts = Some one_image\<rparr>\<rparr>" "[]"]
  by (simp add: upload_request_def upload_form_def form_get_def image_ai_def
      response_of_parts_def one_image_def parts_of_def candidate_parts_def last_inline_def last_text_def
      inline_segments_def text_segments_def inline_part_def text_part_def data_url_def)

text \<open>
  Claim C4 as stated fails at two responses. In the first the candidate has the
  inline-data segment \<^verbatim>\<open>image/png\<close>, \<^verbatim>\<open>Rmlyc3Q=\<close> and the text segment \<^verbatim>\<open>first\<close>,
  and the answer carries a later image and a later text. In the second the candidate has
  one inline-data segment, with empty data, and \<^verbatim>\<open>image\<close> is \<^verbatim>\<open>null\<close>, not
  \<^verbatim>\<open>data:image/png;base64,\<close>.
\<close>

theorem image_not_of_segment:
  "fst (POST two_images_ai upload_request) =
     \<lparr>status = 200,
      body = ResultJson (Some ''data:image/jpeg;base64,U2Vjb25k'') ''second''\<rparr>
   \<and> fst (POST empty_image_ai upload_request) =
     \<lparr>status = 200, body = ResultJson None ''no image''\<rparr>"
  by (simp add: POST_def try_block_def Let_def upload_request_def upload_form_def
      form_get_def arrayBufferToBase64_eq call_model_def process_response_def
      two_images_ai_def empty_image_ai_def
      response_of_parts_def candidate_parts_def two_images_def empty_image_def
      inline_part_def text_part_def process_part_def initial_extracted_def result_json_def)

text \<open>
  Claim C9. When the form carries both files, the handler issues one request to the model.
  Its second part is the inline data of the person image: \<^verbatim>\<open>mimeType\<close> is the declared
  type of the file, or \<^verbatim>\<open>image/jpeg\<close> when that is empty, and \<^verbatim>\<open>data\<close> is the base64
  text of the file. Its fourth part is the inline data of the clothing image:
  \<^verbatim>\<open>mimeType\<close> is the declared type of the file, or \<^verbatim>\<open>image/png\<close> when that is
  empty. A non-empty declared type is forwarded unchanged.
\<close>

theorem mime_type_defaults:
  assumes "formData req = Inr fd"
    and "map_of fd ''userImage'' = Some (FileValue u)"
    and "map_of fd ''clothingImage'' = Some (FileValue c)"
  shows "\<exists>request. snd (POST ai req) = [request]
     \<and> contents request =
        [\<lparr>role = Some ''user'',
          parts = Some
            [\<lparr>inlineData = None,
              text' = Some (''PERSON IMAGE (preserve this person'' @ [CHR 0x27]
                            @ ''s identity exactly):'')\<rparr>,
             \<lparr>inlineData = Some
                \<lparr>data = Some (base64_encode (file_bytes u)),
                 mimeType = Some (if file_type u = [] then ''image/jpeg'' else file_type u)\<rparr>,
              text' = None\<rparr>,
             \<lparr>inlineData = None,
              text' = Some ''CLOTHING IMAGE (extract only the clothing item):''\<rparr>,
             \<lparr>inlineData = Some
                \<lparr>data = Some (base64_encode (file_bytes c)),
                 mimeType = Some (if file_type c = [] then ''image/png'' else file_type c)\<rparr>,
              text' = None\<rparr>,
             \<lparr>inlineData = None, text' = Some improvedPrompt\<rparr>]\<rparr>]"
proof -
  from assms(2,3) have files: "form_get fd ''userImage'' = Some (FileValue u)"
    "form_get fd ''clothingImage'' = Some (FileValue c)"
    by (simp_all add: form_get_def)
  show ?thesis
    by (simp add: POST_calls [OF assms(1) files] issued_request_def build_request_def
        or_default_def inline_part_def text_part_def)
qed

theorem mime_type_defaults_witness:
  "(\<exists>request. snd (POST image_ai upload_request) = [request]
     \<and> contents request =
        [\<lparr>role = Some ''user'',
          parts = Some
            [\<lparr>inlineData = None,
              text' = Some (''PERSON IMAGE (preserve this person'' @ [CHR 0x27]
                            @ ''s identity exactly):'')\<rparr>,
             \<lparr>inlineData = Some \<lparr>data = Some ''TWFu'', mimeType = Some ''image/webp''\<rparr>,
              text' = None\<rparr>,
             \<lparr>inlineData = None,
              text' = Some ''CLOTHING IMAGE (extract only the clothing item):''\<rparr>,
             \<lparr>inlineData = Some \<lparr>data = Some ''TWE='', mimeType = Some ''image/png''\<rparr>,
              text' = None\<rparr>,
             \<lparr>inlineData = None, text' = Some improvedPrompt\<rparr>]\<rparr>])
   \<and> (\<exists>request. snd (POST image_ai untyped_request) = [request]
     \<and> contents request =
        [\<lparr>role = Some ''user'',
          parts = Some
            [\<lparr>inlineData = None,
              text' = Some (''PERSON IMAGE (preserve this person'' @ [CHR 0x27]
                            @ ''s identity exactly):'')\<rparr>,
             \<lparr>inlineData = Some \<lparr>data = Some ''TQ=='', mimeType = Some ''image/jpeg''\<rparr>,
              text' = None\<rparr>,
             \<lparr>inlineData = None,
              text' = Some ''CLOTHING IMAGE (extract only the clothing item):''\<rparr>,
             \<lparr>inlineData = Some \<lparr>data = Some ''TWE='', mimeType = Some ''image/png''\<rparr>,
              text' = None\<rparr>,
             \<lparr>inlineData = None, text' = Some improvedPrompt\<rparr>]\<rparr>])"
  using mime_type_defaults [of upload_request upload_form person_file garment_file image_ai]
    mime_type_defaults [of untyped_request untyped_form untyped_file garment_file image_ai]
  by (simp add: upload_request_def upload_form_def untyped_request_def untyped_form_def
      person_file_def garment_file_def untyped_file_def enc6_def char_of_def bit_0)

section \<open>Properties of the client form controller\<close>

lemma handleSubmit_guard:
  "userImage st = None \<or> clothingImage st = None \<Longrightarrow>
   handleSubmit fetch pending st =
     (setError (Some ''Please upload both your photo and a clothing item image.'') st, [])"
  by (cases "userImage st"; cases "clothingImage st") (simp_all add: handleSubmit_def)

lemma handleSubmit_files:
  assumes "userImage st = Some u" and "clothingImage st = Some c"
  shows "handleSubmit fetch pending st =
     (setIsLoading False
        (case submit_try (fetch (tryon_fetch u c))
                (pending (st\<lparr>isLoading := True, error := None, resultImageUrl := None\<rparr>)) of
           Inr st' \<Rightarrow> st'
         | Inl err \<Rightarrow>
             setImageUrl None
               (setError
                  (Some (case err of
                           ErrorObject message \<Rightarrow> message
                         | OtherValue v \<Rightarrow> ''An error occurred during image generation.''))
                  (pending (st\<lparr>isLoading := True, error := None, resultImageUrl := None\<rparr>)))),
      [tryon_fetch u c])"
proof -
  have "setImageUrl None (setError None (setIsLoading True st))
      = st\<lparr>isLoading := True, error := None, resultImageUrl := None\<rparr>"
    by (simp add: setImageUrl_def setError_def setIsLoading_def)
  with assms show ?thesis
    by (simp add: handleSubmit_def Let_def tryon_fetch_def)
qed

lemma truthy_iff: "truthy v \<longleftrightarrow> (\<exists>s. v = Some s \<and> s \<noteq> [])"
  by (cases v) simp_all

lemma submit_try_success:
  "returns_image outcome \<Longrightarrow>
   \<exists>image. image \<noteq> [] \<and> submit_try outcome st = Inr (setImageUrl (Some image) st)"
  by (auto simp add: returns_image_def submit_try_def truthy_iff
      split: fetch_outcome.splits sum.splits json_value.splits)

lemma submit_try_failure:
  "\<not> returns_image outcome \<Longrightarrow> \<exists>err. submit_try outcome st = Inl err"
  by (auto simp add: returns_image_def submit_try_def
      split: fetch_outcome.splits sum.splits json_value.splits option.splits)

text \<open>
  Claim C7. When the person image or the clothing image is not selected,
  \<^verbatim>\<open>handleSubmit\<close> issues no request and sets the error to the fixed validation
  message; every other state variable keeps its value. The guard returns before the
  handler waits, so nothing that runs later is part of this run.
\<close>

theorem submit_without_files:
  assumes "userImage st = None \<or> clothingImage st = None"
  shows "handleSubmit fetch pending st =
     (st\<lparr>error := Some ''Please upload both your photo and a clothing item image.''\<rparr>, [])"
  using assms by (simp add: handleSubmit_guard setError_def)

theorem submit_without_files_witness:
  "handleSubmit image_fetch oversize_pick shown_state =
     (shown_state\<lparr>error := Some ''Please upload both your photo and a clothing item image.''\<rparr>,
      [])"
  using submit_without_files [of shown_state image_fetch oversize_pick]
  by (simp add: shown_state_def)

text \<open>
  Claim C5, amended. \<^verbatim>\<open>handleSubmit\<close> issues a request only when both the person file
  and the clothing file are selected, and the request is the one \<^verbatim>\<open>POST\<close> to
  \<^verbatim>\<open>/api/tryon\<close> whose form carries these two files. The size of the files is not
  examined.
\<close>

theorem request_needs_both_files:
  assumes "snd (handleSubmit fetch pending st) \<noteq> []"
  shows "\<exists>u c. userImage st = Some u \<and> clothingImage st = Some c
     \<and> snd (handleSubmit fetch pending st) =
         [\<lparr>url = ''/api/tryon'', http_method = ''POST'',
           request_body = [(''userImage'', FileValue u), (''clothingImage'', FileValue c)]\<rparr>]"
proof (cases "userImage st = None \<or> clothingImage st = None")
  case True
  with assms show ?thesis
    by (simp add: handleSubmit_guard)
next
  case False
  then obtain u c where "userImage st = Some u" and "clothingImage st = Some c"
    by auto
  then show ?thesis
    by (simp add: handleSubmit_files tryon_fetch_def)
qed

theorem request_needs_both_files_witness:
  "snd (handleSubmit failing_fetch no_other_handler ready_state) \<noteq> []
   \<and> (\<exists>u c. userImage ready_state = Some u \<and> clothingImage ready_state = Some c
     \<and> snd (handleSubmit failing_fetch no_other_handler ready_state) =
         [\<lparr>url = ''/api/tryon'', http_method = ''POST'',
           request_body = [(''userImage'', FileValue u), (''clothingImage'', FileValue c)]\<rparr>])"
proof -
  have issued: "snd (handleSubmit failing_fetch no_other_handler ready_state) \<noteq> []"
    by (simp add: handleSubmit_def ready_state_def Let_def)
  from issued request_needs_both_files [OF issued] show ?thesis
    by simp
qed

text \<open>
  Claim C5 as stated fails: with two selected files of size zero, the handler issues the
  request.
\<close>

theorem empty_files_submitted:
  "file_size empty_file = 0
   \<and> snd (handleSubmit failing_fetch no_other_handler
            (initial_state\<lparr>userImage := Some empty_file, clothingImage := Some empty_file\<rparr>))
       = [tryon_fetch empty_file empty_file]"
  by (simp add: file_size_def empty_file_def handleSubmit_def initial_state_def Let_def
      tryon_fetch_def)

text \<open>
  Claim C10, amended. After a run of \<^verbatim>\<open>handleSubmit\<close> with both files selected,
  whatever other handlers run while the request is pending, the loading flag is false.
  When the run fails (the request fails, the body does not parse, the status is not a
  success, the body has no image) the error is set and the result is null. When it succeeds
  (a success status and a body with a non-empty \<^verbatim>\<open>image\<close>) the result is set, and the
  error is the one that the state has when the wait ends: the handler cleared it before
  the request and does not write it after a success. So in a run during which no other
  handler sets the error, exactly one of the result and the error is set.
\<close>

theorem submit_outcome:
  assumes "userImage st = Some u" and "clothingImage st = Some c"
  shows "\<not> isLoading (fst (handleSubmit fetch pending st))
   \<and> (\<not> returns_image (fetch (tryon_fetch u c)) \<longrightarrow>
        resultImageUrl (fst (handleSubmit fetch pending st)) = None
        \<and> error (fst (handleSubmit fetch pending st)) \<noteq> None)
   \<and> (returns_image (fetch (tryon_fetch u c)) \<longrightarrow>
        resultImageUrl (fst (handleSubmit fetch pending st)) \<noteq> None
        \<and> error (fst (handleSubmit fetch pending st))
            = error (pending (st\<lparr>isLoading := True, error := None, resultImageUrl := None\<rparr>)))
   \<and> (error (pending (st\<lparr>isLoading := True, error := None, resultImageUrl := None\<rparr>)) = None
        \<longrightarrow>
        (if returns_image (fetch (tryon_fetch u c))
         then resultImageUrl (fst (handleSubmit fetch pending st)) \<noteq> None
              \<and> error (fst (handleSubmit fetch pending st)) = None
         else resultImageUrl (fst (handleSubmit fetch pending st)) = None
              \<and> error (fst (handleSubmit fetch pending st)) \<noteq> None))"
proof -
  define st2 where "st2 = pending (st\<lparr>isLoading := True, error := None, resultImageUrl := None\<rparr>)"
  note run = handleSubmit_files [OF assms, of fetch pending, folded st2_def]
  show ?thesis
  proof (cases "returns_image (fetch (tryon_fetch u c))")
    case True
    from submit_try_success [OF True]
    obtain image where
      "submit_try (fetch (tryon_fetch u c)) st2 = Inr (setImageUrl (Some image) st2)"
      by blast
    with True show ?thesis
      unfolding st2_def [symmetric]
      by (simp add: run setImageUrl_def setIsLoading_def)
  next
    case False
    from submit_try_failure [OF False]
    obtain err where "submit_try (fetch (tryon_fetch u c)) st2 = Inl err"
      by blast
    with False show ?thesis
      unfolding st2_def [symmetric]
      by (simp add: run setImageUrl_def setError_def setIsLoading_def)
  qed
qed

theorem submit_outcome_witness:
  "\<not> isLoading (fst (handleSubmit image_fetch no_other_handler ready_state))
   \<and> resultImageUrl (fst (handleSubmit image_fetch no_other_handler ready_state))
       = Some ''data:image/png;base64,iVBORw0KGgo=''
   \<and> error (fst (handleSubmit image_fetch no_other_handler ready_state)) = None
   \<and> \<not> isLoading (fst (handleSubmit failing_fetch oversize_pick ready_state))
   \<and> resultImageUrl (fst (handleSubmit failing_fetch oversize_pick ready_state)) = None
   \<and> error (fst (handleSubmit failing_fetch oversize_pick ready_state))
       = Some ''Failed to fetch''"
  using submit_outcome [of ready_state person_file garment_file image_fetch no_other_handler]
    submit_outcome [of ready_state person_file garment_file failing_fetch oversize_pick]
  by (simp add: ready_state_def handleSubmit_def Let_def submit_try_def image_fetch_def
      failing_fetch_def no_other_handler_def setImageUrl_def setError_def setIsLoading_def)

text \<open>
  Claim C10 as stated fails at two runs. A run that the guard stops, in a state that shows
  the result of an earlier submission, leaves both the result and the error set. A run
  with both files selected that succeeds, while a file of more than 10MB is selected
  during the wait, also leaves both set: the selection sets the error, and the handler
  does not clear it after the wait.
\<close>

theorem guard_keeps_result:
  "resultImageUrl (fst (handleSubmit image_fetch no_other_handler shown_state))
     = Some ''data:image/png;base64,iVBORw0KGgo=''
   \<and> error (fst (handleSubmit image_fetch no_other_handler shown_state))
     = Some ''Please upload both your photo and a clothing item image.''
   \<and> userImage ready_state \<noteq> None \<and> clothingImage ready_state \<noteq> None
   \<and> \<not> isLoading (fst (handleSubmit image_fetch oversize_pick ready_state))
   \<and> resultImageUrl (fst (handleSubmit image_fetch oversize_pick ready_state))
     = Some ''data:image/png;base64,iVBORw0KGgo=''
   \<and> error (fst (handleSubmit image_fetch oversize_pick ready_state))
     = Some ''File size too large. Please use images smaller than 10MB.''"
  by (simp add: handleSubmit_def shown_state_def ready_state_def Let_def submit_try_def
      image_fetch_def no_other_handler_def oversize_pick_def handleFileChange_def
      file_size_def file_of_size_def setImageUrl_def setError_def setIsLoading_def)

text \<open>
  Claim C2, amended. For a file of at most 10MB (\<^verbatim>\<open>10 * 1024 * 1024\<close> bytes, the bound
  included), \<^verbatim>\<open>handleFileChange\<close> stores the file in its slot, clears the error and
  registers the callback that sets the preview of the slot to the result of the reader.
  For a file of more than 10MB it sets the error to the fixed message and changes nothing
  else: the file and the preview stored before are kept.
\<close>

theorem file_selection:
  "(file_size f \<le> 10 * 1024 * 1024 \<longrightarrow>
      fst (handleFileChange reader (Some f) setUserImage setUserImagePreview st)
        = st\<lparr>userImage := Some f, error := None\<rparr>
      \<and> run_callbacks
          (snd (handleFileChange reader (Some f) setUserImage setUserImagePreview st))
          (fst (handleFileChange reader (Some f) setUserImage setUserImagePreview st))
        = st\<lparr>userImage := Some f, userImagePreview := reader f, error := None\<rparr>
      \<and> fst (handleFileChange reader (Some f) setClothingImage setClothingImagePreview st)
        = st\<lparr>clothingImage := Some f, error := None\<rparr>
      \<and> run_callbacks
          (snd (handleFileChange reader (Some f) setClothingImage setClothingImagePreview st))
          (fst (handleFileChange reader (Some f) setClothingImage setClothingImagePreview st))
        = st\<lparr>clothingImage := Some f, clothingImagePreview := reader f, error := None\<rparr>)
   \<and> (10 * 1024 * 1024 < file_size f \<longrightarrow>
      handleFileChange reader (Some f) setImage setPreview st
        = (st\<lparr>error := Some ''File size too large. Please use images smaller than 10MB.''\<rparr>,
           []))"
  by (simp add: handleFileChange_def setUserImage_def setUserImagePreview_def
      setClothingImage_def setClothingImagePreview_def setError_def)

theorem file_selection_witness:
  "fst (handleFileChange fixed_reader (Some person_file)
          setUserImage setUserImagePreview ready_state)
     = ready_state\<lparr>userImage := Some person_file, error := None\<rparr>
   \<and> run_callbacks
       (snd (handleFileChange fixed_reader (Some person_file)
               setUserImage setUserImagePreview ready_state))
       (fst (handleFileChange fixed_reader (Some person_file)
               setUserImage setUserImagePreview ready_state))
     = ready_state\<lparr>userImage := Some person_file,
         userImagePreview := Some ''data:image/webp;base64,TWFu'', error := None\<rparr>
   \<and> handleFileChange no_reader (Some (file_of_size 10485761)) setClothingImage
       setClothingImagePreview initial_state
     = (initial_state\<lparr>error := Some ''File size too large. Please use images smaller than 10MB.''\<rparr>,
        [])"
proof -
  have small: "file_size person_file \<le> 10 * 1024 * 1024"
    by (simp add: file_size_def person_file_def)
  have big: "10 * 1024 * 1024 < file_size (file_of_size 10485761)"
    by (simp add: file_size_def file_of_size_def)
  from small
    file_selection [of person_file fixed_reader ready_state
      setClothingImage setClothingImagePreview]
  have accepted:
    "fst (handleFileChange fixed_reader (Some person_file)
            setUserImage setUserImagePreview ready_state)
       = ready_state\<lparr>userImage := Some person_file, error := None\<rparr>
     \<and> run_callbacks
         (snd (handleFileChange fixed_reader
                 (Some person_file) setUserImage setUserImagePreview ready_state))
         (fst (handleFileChange fixed_reader
                 (Some person_file) setUserImage setUserImagePreview ready_state))
       = ready_state\<lparr>userImage := Some person_file,
           userImagePreview := fixed_reader person_file, error := None\<rparr>"
    by blast
  from big
    file_selection [of "file_of_size 10485761" no_reader initial_state
      setClothingImage setClothingImagePreview]
  have rejected:
    "handleFileChange no_reader (Some (file_of_size 10485761)) setClothingImage
       setClothingImagePreview initial_state
     = (initial_state\<lparr>error := Some ''File size too large. Please use images smaller than 10MB.''\<rparr>,
        [])"
    by blast
  have preview: "fixed_reader person_file = Some ''data:image/webp;base64,TWFu''"
    by (simp add: fixed_reader_def)
  from accepted rejected show ?thesis
    unfolding preview by blast
qed

text \<open>
  Claim C2 as stated fails at the bound: a file of exactly 10MB is not rejected; it is
  stored and the error is cleared.
\<close>

theorem file_of_10MB_accepted:
  "file_size (file_of_size 10485760) = 10 * 1024 * 1024
   \<and> fst (handleFileChange no_reader (Some (file_of_size 10485760)) setUserImage
            setUserImagePreview ready_state)
     = ready_state\<lparr>userImage := Some (file_of_size 10485760), error := None\<rparr>"
  by (simp add: file_size_def file_of_size_def handleFileChange_def setUserImage_def
      setError_def)

end
